theory Spec2Isabelle
  imports Complex_Main
begin

section \<open>The relational store\<close>

text \<open>
  The service functions of \<^verbatim>\<open>lib/votes\<close> and \<^verbatim>\<open>lib/polls\<close> talk to a hosted relational
  store through a client whose every call resolves to an object \<^verbatim>\<open>{ data, error }\<close>.
  The tables are the ones of the schema in the README: \<^verbatim>\<open>polls\<close> with primary key
  \<^verbatim>\<open>id\<close>, and \<^verbatim>\<open>votes\<close> with \<^verbatim>\<open>UNIQUE(poll_id, user_id)\<close> and
  \<^verbatim>\<open>poll_id REFERENCES polls(id) ON DELETE CASCADE\<close>. The columns \<^verbatim>\<open>id\<close> and
  \<^verbatim>\<open>created_at\<close> of a vote are generated by the store and read by no function below
  (\<^verbatim>\<open>hasUserVoted\<close> selects \<^verbatim>\<open>id\<close> only to test that a row came back), so a vote row
  carries the three columns the code writes. Timestamps are milliseconds since the epoch,
  which is what the comparison of two \<^verbatim>\<open>Date\<close> objects compares. Row-level security
  and the identity of the session are outside the model.
\<close>

datatype store_error =
    NoRows
  | MultipleRows
  | UniqueViolation
  | ForeignKeyViolation
  | NotNullViolation
  | InvalidInput
  | Unavailable

record poll =
  question :: string
  options :: "string list"
  created_by :: string
  expires_at :: "int option"
  is_public :: bool

record vote =
  poll_id :: string
  user_id :: string
  option_index :: int

record store =
  polls :: "string \<rightharpoonup> poll"
  votes :: "vote list"

record 'a response =
  data :: "'a option"
  error :: "store_error option"

text \<open>
  A call may also not be answered at all (network, time-out, service down): the client then
  resolves to \<^verbatim>\<open>data: null\<close> with an error, and the tables are as they were. Which calls
  of one operation go unanswered is a parameter of the operation: \<open>out k\<close> says that its
  \<open>k\<close>-th store call (counted from 0, in program order) is not answered.
\<close>

type_synonym outages = "nat \<Rightarrow> bool"

definition answered :: outages where
  "answered = (\<lambda>k. False)"

definition unanswered :: "'a response" where
  "unanswered = \<lparr>data = None, error = Some Unavailable\<rparr>"

text \<open>\<^verbatim>\<open>.single()\<close>: exactly one row is data, anything else is an error with no data.\<close>

definition single :: "'a list \<Rightarrow> 'a response" where
  "single rows =
     (case rows of
        [] \<Rightarrow> \<lparr>data = None, error = Some NoRows\<rparr>
      | [r] \<Rightarrow> \<lparr>data = Some r, error = None\<rparr>
      | r # r' # rest \<Rightarrow> \<lparr>data = None, error = Some MultipleRows\<rparr>)"

text \<open>\<^verbatim>\<open>from('votes').select('id').eq('poll_id', p).eq('user_id', u).single()\<close>\<close>

definition select_vote_single :: "bool \<Rightarrow> store \<Rightarrow> string \<Rightarrow> string \<Rightarrow> vote response" where
  "select_vote_single down db p u =
     (if down then unanswered
      else single (filter (\<lambda>v. poll_id v = p \<and> user_id v = u) (votes db)))"

text \<open>\<^verbatim>\<open>from('votes').select('option_index').eq('poll_id', p)\<close>\<close>

definition select_votes :: "bool \<Rightarrow> store \<Rightarrow> string \<Rightarrow> vote list response" where
  "select_votes down db p =
     (if down then unanswered
      else \<lparr>data = Some (filter (\<lambda>v. poll_id v = p) (votes db)), error = None\<rparr>)"

text \<open>\<^verbatim>\<open>from('polls').select(...).eq('id', p).single()\<close>; \<^verbatim>\<open>id\<close> is the primary key.\<close>

definition select_poll_single :: "bool \<Rightarrow> store \<Rightarrow> string \<Rightarrow> poll response" where
  "select_poll_single down db p =
     (if down then unanswered
      else case polls db p of
             None \<Rightarrow> \<lparr>data = None, error = Some NoRows\<rparr>
           | Some q \<Rightarrow> \<lparr>data = Some q, error = None\<rparr>)"

text \<open>
  A JavaScript number, as far as comparing it with an integer and writing it to an integer
  column can tell numbers apart: a finite value, \<^verbatim>\<open>NaN\<close>, or an infinity. Every
  comparison with \<^verbatim>\<open>NaN\<close> is false.
\<close>

datatype number = Finite rat | NotANumber | PlusInfinity | MinusInfinity

fun number_lt :: "number \<Rightarrow> rat \<Rightarrow> bool" where
  "number_lt (Finite x) c = (x < c)"
| "number_lt MinusInfinity c = True"
| "number_lt PlusInfinity c = False"
| "number_lt NotANumber c = False"

fun number_ge :: "number \<Rightarrow> rat \<Rightarrow> bool" where
  "number_ge (Finite x) c = (c \<le> x)"
| "number_ge PlusInfinity c = True"
| "number_ge MinusInfinity c = False"
| "number_ge NotANumber c = False"

text \<open>
  What the column \<^verbatim>\<open>option_index INTEGER NOT NULL\<close> makes of a number sent to it: a
  whole number is stored; a fraction is no integer; \<^verbatim>\<open>NaN\<close> and the infinities travel
  as \<^verbatim>\<open>null\<close>. The bound of the column's 32 bits is not modelled.
\<close>

definition integer_of :: "number \<Rightarrow> store_error + int" where
  "integer_of x =
     (case x of
        Finite q \<Rightarrow> if of_int \<lfloor>q\<rfloor> = q then Inr \<lfloor>q\<rfloor> else Inl InvalidInput
      | _ \<Rightarrow> Inl NotNullViolation)"

text \<open>
  \<^verbatim>\<open>from('votes').insert({ poll_id, user_id, option_index }).select().single()\<close>: the
  store refuses a value that is no integer, a second row for the same
  \<^verbatim>\<open>(poll_id, user_id)\<close> and a row whose poll does not exist; otherwise the row is added
  and returned.
\<close>

definition insert_vote ::
  "bool \<Rightarrow> store \<Rightarrow> string \<Rightarrow> string \<Rightarrow> number \<Rightarrow> vote response \<times> store" where
  "insert_vote down db p u x =
     (if down then (unanswered, db)
      else case integer_of x of
        Inl e \<Rightarrow> (\<lparr>data = None, error = Some e\<rparr>, db)
      | Inr k \<Rightarrow>
          if \<exists>v \<in> set (votes db). poll_id v = p \<and> user_id v = u
            then (\<lparr>data = None, error = Some UniqueViolation\<rparr>, db)
          else if polls db p = None
            then (\<lparr>data = None, error = Some ForeignKeyViolation\<rparr>, db)
          else (\<lparr>data = Some \<lparr>poll_id = p, user_id = u, option_index = k\<rparr>, error = None\<rparr>,
                db\<lparr>votes := votes db @ [\<lparr>poll_id = p, user_id = u, option_index = k\<rparr>]\<rparr>))"

text \<open>\<^verbatim>\<open>from('votes').delete().eq('poll_id', p)\<close>\<close>

definition delete_votes :: "bool \<Rightarrow> store \<Rightarrow> string \<Rightarrow> store_error option \<times> store" where
  "delete_votes down db p =
     (if down then (Some Unavailable, db)
      else (None, db\<lparr>votes := filter (\<lambda>v. poll_id v \<noteq> p) (votes db)\<rparr>))"

text \<open>\<^verbatim>\<open>from('polls').delete().eq('id', p)\<close>, with the cascade of the foreign key.\<close>

definition delete_poll :: "bool \<Rightarrow> store \<Rightarrow> string \<Rightarrow> store_error option \<times> store" where
  "delete_poll down db p =
     (if down then (Some Unavailable, db)
      else (None, db\<lparr>polls := (polls db)(p := None),
                      votes := filter (\<lambda>v. poll_id v \<noteq> p) (votes db)\<rparr>))"

text \<open>The constraint \<^verbatim>\<open>UNIQUE(poll_id, user_id)\<close> as a property of the table.\<close>

definition votes_unique :: "store \<Rightarrow> bool" where
  "votes_unique db = distinct (map (\<lambda>v. (poll_id v, user_id v)) (votes db))"


section \<open>Votes\<close>

text \<open>
  The errors the functions return. The first five are the \<^verbatim>\<open>new Error(...)\<close> values the
  code builds itself, named after their messages: \<^verbatim>\<open>'User has already voted on this poll'\<close>,
  \<^verbatim>\<open>'Poll not found'\<close>, \<^verbatim>\<open>'Poll has expired'\<close>, \<^verbatim>\<open>'Invalid option index'\<close>,
  \<^verbatim>\<open>'Not authorized to delete this poll'\<close>. \<open>StoreError\<close> is an error object of the
  store handed on as it came.
\<close>

datatype failure =
    AlreadyVoted
  | PollNotFound
  | PollExpired
  | InvalidOption
  | NotAuthorized
  | StoreError store_error

record vote_result =
  vote :: "vote option"
  vote_error :: "failure option"

definition hasUserVoted :: "outages \<Rightarrow> store \<Rightarrow> string \<Rightarrow> string \<Rightarrow> bool" where
  "hasUserVoted out db pollId userId =
     (let r = select_vote_single (out 0) db pollId userId
      in if error r \<noteq> None then False else data r \<noteq> None)"

text \<open>
  \<^verbatim>\<open>submitVote\<close> awaits the store three times. Everything up to the insert only reads:
  \<open>submitVote_checks\<close> is that part and gives the error of the first check that fails.
  \<open>submitVote_insert\<close> is the last statement. \<open>now\<close> is the clock read by
  \<^verbatim>\<open>new Date()\<close>; \<^verbatim>\<open>optionIndex\<close> is a number, as its type says.
\<close>

definition submitVote_checks ::
  "outages \<Rightarrow> store \<Rightarrow> int \<Rightarrow> string \<Rightarrow> string \<Rightarrow> number \<Rightarrow> failure option" where
  "submitVote_checks out db now pollId userId optionIndex =
     (if hasUserVoted out db pollId userId then Some AlreadyVoted
      else case data (select_poll_single (out 1) db pollId) of
             None \<Rightarrow> Some PollNotFound
           | Some poll \<Rightarrow>
               if (case expires_at poll of None \<Rightarrow> False | Some t \<Rightarrow> t < now)
                 then Some PollExpired
               else if number_lt optionIndex 0
                       \<or> number_ge optionIndex (of_nat (length (options poll)))
                 then Some InvalidOption
               else None)"

definition submitVote_insert ::
  "outages \<Rightarrow> store \<Rightarrow> string \<Rightarrow> string \<Rightarrow> number \<Rightarrow> vote_result \<times> store" where
  "submitVote_insert out db pollId userId optionIndex =
     (case insert_vote (out 2) db pollId userId optionIndex of
        (r, db') \<Rightarrow> (\<lparr>vote = data r, vote_error = map_option StoreError (error r)\<rparr>, db'))"

definition submitVote ::
  "outages \<Rightarrow> store \<Rightarrow> int \<Rightarrow> string \<Rightarrow> string \<Rightarrow> number \<Rightarrow> vote_result \<times> store" where
  "submitVote out db now pollId userId optionIndex =
     (case submitVote_checks out db now pollId userId optionIndex of
        Some e \<Rightarrow> (\<lparr>vote = None, vote_error = Some e\<rparr>, db)
      | None \<Rightarrow> submitVote_insert out db pollId userId optionIndex)"

text \<open>
  The array of counts is a JavaScript array of numbers. \<^verbatim>\<open>results[i]++\<close> adds one to a
  number; on an index past the end it reads \<^verbatim>\<open>undefined\<close>, stores \<^verbatim>\<open>NaN\<close> there and the
  array grows, the slots in between staying empty; on a negative index it sets a property
  that is no element of the array. Counts are exact integers (below \<open>2^53\<close>, far beyond
  the rows of a table).
\<close>

datatype cell = Num int | NaN | Hole

fun increment :: "cell \<Rightarrow> cell" where
  "increment (Num c) = Num (c + 1)"
| "increment NaN = NaN"
| "increment Hole = NaN"

definition increment_at :: "cell list \<Rightarrow> int \<Rightarrow> cell list" where
  "increment_at xs i =
     (if i < 0 then xs
      else if nat i < length xs then xs[nat i := increment (xs ! nat i)]
      else xs @ replicate (nat i - length xs) Hole @ [NaN])"

record results_result =
  results :: "cell list"
  results_error :: "failure option"

definition getPollResults :: "outages \<Rightarrow> store \<Rightarrow> string \<Rightarrow> results_result" where
  "getPollResults out db pollId =
     (let r = select_votes (out 0) db pollId in
      case error r of
        Some e \<Rightarrow> \<lparr>results = [], results_error = Some (StoreError e)\<rparr>
      | None \<Rightarrow>
          (case data (select_poll_single (out 1) db pollId) of
             None \<Rightarrow> \<lparr>results = [], results_error = Some PollNotFound\<rparr>
           | Some poll \<Rightarrow>
               \<lparr>results =
                  fold (\<lambda>v acc. increment_at acc (option_index v))
                    (case data r of None \<Rightarrow> [] | Some vs \<Rightarrow> vs)
                    (replicate (length (options poll)) (Num 0)),
                results_error = None\<rparr>))"

text \<open>The number in a slot of the array, for adding up the counts; no count where there is no number.\<close>

fun count_of :: "cell \<Rightarrow> int" where
  "count_of (Num c) = c"
| "count_of NaN = 0"
| "count_of Hole = 0"

text \<open>
  \<^verbatim>\<open>subscribeToResults\<close> opens a channel named after the poll, filtered on the poll's
  votes, and returns it with \<^verbatim>\<open>error: null\<close>. The function it registers runs on every
  change notification: it awaits \<^verbatim>\<open>getPollResults\<close>, keeps the \<^verbatim>\<open>results\<close> field of
  what comes back and calls \<^verbatim>\<open>onUpdate\<close> with it. \<open>on_change\<close> is that function, as
  a step on the subscription and the state \<open>'c\<close> of the caller that \<^verbatim>\<open>onUpdate\<close>
  writes to.
\<close>

record subscription =
  channel :: string
  poll_filter :: string
  joined :: bool

definition subscribeToResults :: "string \<Rightarrow> subscription \<times> failure option" where
  "subscribeToResults pollId =
     (\<lparr>channel = ''poll_'' @ pollId, poll_filter = pollId, joined = True\<rparr>, None)"

definition on_change ::
  "outages \<Rightarrow> store \<Rightarrow> (cell list \<Rightarrow> 'c \<Rightarrow> 'c) \<Rightarrow> subscription \<times> 'c \<Rightarrow> subscription \<times> 'c" where
  "on_change out db onUpdate =
     (\<lambda>(sub, c). (sub, onUpdate (results (getPollResults out db (poll_filter sub))) c))"


section \<open>Polls\<close>

record delete_result =
  success :: bool
  delete_error :: "failure option"

definition deletePoll ::
  "outages \<Rightarrow> store \<Rightarrow> string \<Rightarrow> string \<Rightarrow> delete_result \<times> store" where
  "deletePoll out db pid userId =
     (case data (select_poll_single (out 0) db pid) of
        None \<Rightarrow> (\<lparr>success = False, delete_error = Some NotAuthorized\<rparr>, db)
      | Some poll \<Rightarrow>
          if created_by poll \<noteq> userId
            then (\<lparr>success = False, delete_error = Some NotAuthorized\<rparr>, db)
          else
            (case delete_votes (out 1) db pid of
               (ignored, db1) \<Rightarrow>
                 (case delete_poll (out 2) db1 pid of
                    (e, db2) \<Rightarrow>
                      (\<lparr>success = (e = None), delete_error = map_option StoreError e\<rparr>,
                       db2))))"


section \<open>The poll-creation endpoint\<close>

text \<open>
  \<^verbatim>\<open>app/api/polls/route.ts\<close>. A request body that is JSON text is a value of type
  \<open>json\<close>; an object is the list of its members (\<^verbatim>\<open>JSON.parse\<close> leaves one member per
  key). The schema never looks inside a number, so numbers are integers here. The length of
  a string is the length \<^verbatim>\<open>.length\<close> gives, one \<open>char\<close> standing for one code unit.
\<close>

datatype json =
    JNull
  | JBool bool
  | JNum int
  | JStr string
  | JArr "json list"
  | JObj "(string \<times> json) list"

text \<open>
  What the validation library reports: an issue is the path of the offending value and
  whether it has the wrong type (a missing member included) or is too small.
\<close>

datatype segment = Key string | Index nat

datatype issue_code = InvalidType | TooSmall

type_synonym issue = "segment list \<times> issue_code"

definition issues_of :: "issue list + 'a \<Rightarrow> issue list" where
  "issues_of r = (case r of Inl is \<Rightarrow> is | Inr v \<Rightarrow> [])"

definition values_of :: "(issue list + 'a) list \<Rightarrow> 'a list" where
  "values_of rs = concat (map (\<lambda>r. case r of Inl is \<Rightarrow> [] | Inr v \<Rightarrow> [v]) rs)"

text \<open>\<^verbatim>\<open>z.string().min(k)\<close>, on a member that may be absent.\<close>

definition parse_string :: "nat \<Rightarrow> segment list \<Rightarrow> json option \<Rightarrow> issue list + json" where
  "parse_string k path x =
     (case x of
        Some (JStr s) \<Rightarrow> if k \<le> length s then Inr (JStr s) else Inl [(path, TooSmall)]
      | _ \<Rightarrow> Inl [(path, InvalidType)])"

text \<open>\<^verbatim>\<open>z.object({ text: z.string().min(1) })\<close>; members the schema does not name are dropped.\<close>

definition parse_option :: "segment list \<Rightarrow> json \<Rightarrow> issue list + json" where
  "parse_option path x =
     (case x of
        JObj kvs \<Rightarrow>
          (case parse_string 1 (path @ [Key ''text'']) (map_of kvs ''text'') of
             Inl is \<Rightarrow> Inl is
           | Inr t \<Rightarrow> Inr (JObj [(''text'', t)]))
      | _ \<Rightarrow> Inl [(path, InvalidType)])"

text \<open>\<^verbatim>\<open>z.array(...).min(2)\<close>\<close>

definition parse_options :: "segment list \<Rightarrow> json option \<Rightarrow> issue list + json" where
  "parse_options path x =
     (case x of
        Some (JArr xs) \<Rightarrow>
          (let rs = map (\<lambda>(i, y). parse_option (path @ [Index i]) y) (enumerate 0 xs);
               is = (if length xs < 2 then [(path, TooSmall)] else [])
                      @ concat (map issues_of rs)
           in if is = [] then Inr (JArr (values_of rs)) else Inl is)
      | _ \<Rightarrow> Inl [(path, InvalidType)])"

definition pollSchema_parse :: "json \<Rightarrow> issue list + json" where
  "pollSchema_parse body =
     (case body of
        JObj kvs \<Rightarrow>
          (let q = parse_string 5 [Key ''question''] (map_of kvs ''question'');
               os = parse_options [Key ''options''] (map_of kvs ''options'')
           in case (q, os) of
                (Inr qv, Inr ov) \<Rightarrow> Inr (JObj [(''question'', qv), (''options'', ov)])
              | _ \<Rightarrow> Inl (issues_of q @ issues_of os))
      | _ \<Rightarrow> Inl [([], InvalidType)])"

text \<open>
  The handler. \<open>None\<close> is a request whose body \<^verbatim>\<open>request.json()\<close> rejects: the
  exception is no \<^verbatim>\<open>ZodError\<close> and falls to the last \<^verbatim>\<open>return\<close>. The store is passed
  through to say what the handler does to it.
\<close>

record reply =
  status :: nat
  message :: string
  reply_data :: "json option"
  errors :: "issue list option"

definition POST :: "store \<Rightarrow> json option \<Rightarrow> reply \<times> store" where
  "POST db request_json =
     (case request_json of
        None \<Rightarrow>
          (\<lparr>status = 500, message = ''Internal server error'',
            reply_data = None, errors = None\<rparr>, db)
      | Some body \<Rightarrow>
          (case pollSchema_parse body of
             Inr validatedData \<Rightarrow>
               (\<lparr>status = 201, message = ''Poll created successfully'',
                 reply_data = Some validatedData, errors = None\<rparr>, db)
           | Inl is \<Rightarrow>
               (\<lparr>status = 400, message = ''Invalid request data'',
                 reply_data = None, errors = Some is\<rparr>, db)))"



text \<open>
  The schema in words, to compare the handler with: the body is an object whose
  \<^verbatim>\<open>question\<close> is a string of at least 5 characters and whose \<^verbatim>\<open>options\<close> is an
  array of at least 2 elements, each an object whose \<^verbatim>\<open>text\<close> is a string of at
  least 1 character.
\<close>

definition is_string_min :: "nat \<Rightarrow> json option \<Rightarrow> bool" where
  "is_string_min k x = (case x of Some (JStr s) \<Rightarrow> k \<le> length s | _ \<Rightarrow> False)"

definition has_text :: "json \<Rightarrow> bool" where
  "has_text x = (case x of JObj kvs \<Rightarrow> is_string_min 1 (map_of kvs ''text'') | _ \<Rightarrow> False)"

definition is_options :: "json option \<Rightarrow> bool" where
  "is_options x =
     (case x of Some (JArr os) \<Rightarrow> 2 \<le> length os \<and> list_all has_text os | _ \<Rightarrow> False)"

definition meets_schema :: "json \<Rightarrow> bool" where
  "meets_schema body =
     (case body of
        JObj kvs \<Rightarrow>
          is_string_min 5 (map_of kvs ''question'') \<and> is_options (map_of kvs ''options'')
      | _ \<Rightarrow> False)"

text \<open>
  The data of such a body: the two members the schema names, and of every option its
  \<^verbatim>\<open>text\<close>.
\<close>

definition member :: "(string \<times> json) list \<Rightarrow> string \<Rightarrow> json" where
  "member kvs k = (case map_of kvs k of Some v \<Rightarrow> v | None \<Rightarrow> JNull)"

definition text_member :: "json \<Rightarrow> json" where
  "text_member x = (case x of JObj kvs \<Rightarrow> JObj [(''text'', member kvs ''text'')] | _ \<Rightarrow> x)"

definition schema_members :: "json \<Rightarrow> json" where
  "schema_members body =
     (case body of
        JObj kvs \<Rightarrow>
          JObj [(''question'', member kvs ''question''),
                (''options'', case member kvs ''options'' of
                                JArr os \<Rightarrow> JArr (map text_member os) | v \<Rightarrow> v)]
      | _ \<Rightarrow> body)"

section \<open>Sample data\<close>

text \<open>Stores and a caller on which the theorems below are evaluated.\<close>

definition demo_poll :: poll where
  "demo_poll = \<lparr>question = ''Colour?'', options = [''Red'', ''Blue''], created_by = ''owner'',
                 expires_at = None, is_public = True\<rparr>"

definition demo_store :: store where
  "demo_store = \<lparr>polls = [''P'' \<mapsto> demo_poll], votes = []\<rparr>"

definition expired_poll :: poll where
  "expired_poll = \<lparr>question = ''Lunch?'', options = [''Soup'', ''Salad'', ''Rice''],
                    created_by = ''carol'', expires_at = Some 100, is_public = False\<rparr>"

definition busy_store :: store where
  "busy_store =
     \<lparr>polls = [''P'' \<mapsto> demo_poll, ''Q'' \<mapsto> expired_poll],
      votes = [\<lparr>poll_id = ''P'', user_id = ''A'', option_index = 0\<rparr>,
               \<lparr>poll_id = ''Q'', user_id = ''A'', option_index = 2\<rparr>,
               \<lparr>poll_id = ''P'', user_id = ''B'', option_index = 1\<rparr>,
               \<lparr>poll_id = ''P'', user_id = ''C'', option_index = 1\<rparr>]\<rparr>"

definition offline :: outages where
  "offline = (\<lambda>k. True)"

definition first_down :: outages where
  "first_down = (\<lambda>k. k = 0)"

definition second_down :: outages where
  "second_down = (\<lambda>k. k = 1)"

definition stray_store :: store where
  "stray_store =
     \<lparr>polls = [''P'' \<mapsto> demo_poll],
      votes = [\<lparr>poll_id = ''P'', user_id = ''A'', option_index = 5\<rparr>]\<rparr>"

definition good_body :: json where
  "good_body =
     JObj [(''question'', JStr ''Tea or coffee?''),
           (''options'', JArr [JObj [(''text'', JStr ''Tea''), (''votes'', JNum 0)],
                               JObj [(''text'', JStr ''Coffee'')]]),
           (''owner'', JStr ''me'')]"

definition bad_body :: json where
  "bad_body =
     JObj [(''question'', JStr ''Tea?''),
           (''options'', JArr [JObj [(''text'', JStr '''')]])]"

definition log_update :: "cell list \<Rightarrow> cell list list \<Rightarrow> cell list list" where
  "log_update r seen = seen @ [r]"


section \<open>Facts about the store\<close>

lemma answered_at: "\<not> answered k"
  by (simp add: answered_def)

lemma single_data: "data (single rows) \<noteq> None \<longleftrightarrow> length rows = Suc 0"
  by (auto simp: single_def split: list.splits)

lemma single_error: "error (single rows) = None \<longleftrightarrow> length rows = Suc 0"
  by (auto simp: single_def split: list.splits)

lemma hasUserVoted_rows:
  "hasUserVoted out db p u \<longleftrightarrow>
     \<not> out 0 \<and> length (filter (\<lambda>v. poll_id v = p \<and> user_id v = u) (votes db)) = 1"
  using single_data[of "filter (\<lambda>v. poll_id v = p \<and> user_id v = u) (votes db)"]
    single_error[of "filter (\<lambda>v. poll_id v = p \<and> user_id v = u) (votes db)"]
  by (auto simp: hasUserVoted_def select_vote_single_def unanswered_def Let_def)

lemma distinct_map_filter_le1:
  "distinct (map f xs) \<Longrightarrow> length (filter (\<lambda>x. f x = k) xs) \<le> 1"
  by (induction xs) (auto simp: filter_empty_conv image_iff)

lemma unique_rows:
  assumes "votes_unique db"
  shows "length (filter (\<lambda>v. poll_id v = p \<and> user_id v = u) (votes db)) = 1
          \<longleftrightarrow> (\<exists>v \<in> set (votes db). poll_id v = p \<and> user_id v = u)"
proof -
  let ?m = "\<lambda>v. poll_id v = p \<and> user_id v = u"
  have eq: "?m = (\<lambda>v. (poll_id v, user_id v) = (p, u))" by auto
  have "length (filter ?m (votes db)) \<le> 1"
    using assms distinct_map_filter_le1[of "\<lambda>v. (poll_id v, user_id v)" "votes db" "(p, u)"]
    unfolding votes_unique_def eq by simp
  moreover have "length (filter ?m (votes db)) = 0 \<longleftrightarrow> \<not> (\<exists>v \<in> set (votes db). ?m v)"
    by (simp add: filter_empty_conv)
  ultimately show ?thesis by linarith
qed

lemma hasUserVoted_unique:
  "votes_unique db \<Longrightarrow>
   hasUserVoted out db p u \<longleftrightarrow> \<not> out 0 \<and> (\<exists>v \<in> set (votes db). poll_id v = p \<and> user_id v = u)"
  using unique_rows[of db p u] by (auto simp: hasUserVoted_rows)

lemma select_poll_data:
  "data (select_poll_single down db p) = (if down then None else polls db p)"
  by (auto simp: select_poll_single_def unanswered_def split: option.splits)

lemma checks_pass:
  assumes "submitVote_checks out db now p u i = None"
  shows "\<not> hasUserVoted out db p u" and "polls db p \<noteq> None"
  using assms
  by (auto simp: submitVote_checks_def select_poll_data split: if_splits option.splits)

lemma integer_of_int: "integer_of (Finite (of_int a)) = Inr a"
  by (simp add: integer_of_def)


lemma insert_vote_fresh:
  assumes "\<not> down" and "\<not> (\<exists>v \<in> set (votes db). poll_id v = p \<and> user_id v = u)"
    and "polls db p \<noteq> None"
  shows "insert_vote down db p u (Finite (of_int a))
           = (\<lparr>data = Some \<lparr>poll_id = p, user_id = u, option_index = a\<rparr>, error = None\<rparr>,
              db\<lparr>votes := votes db @ [\<lparr>poll_id = p, user_id = u, option_index = a\<rparr>]\<rparr>)"
  using assms by (auto simp: insert_vote_def integer_of_int)

lemma insert_vote_duplicate:
  assumes "\<not> down" and "\<exists>v \<in> set (votes db). poll_id v = p \<and> user_id v = u"
  shows "insert_vote down db p u (Finite (of_int b))
           = (\<lparr>data = None, error = Some UniqueViolation\<rparr>, db)"
  using assms by (auto simp: insert_vote_def integer_of_int)

text \<open>The constraint holds of every store that the operations lead to from one where it holds.\<close>

lemma insert_vote_unique:
  "votes_unique db \<Longrightarrow> votes_unique (snd (insert_vote down db p u x))"
  by (auto simp: insert_vote_def votes_unique_def image_iff split: sum.splits)

lemma submitVote_unique:
  "votes_unique db \<Longrightarrow> votes_unique (snd (submitVote out db now p u i))"
  using insert_vote_unique [of db "out 2" p u i]
  by (auto simp: submitVote_def submitVote_insert_def split: option.splits prod.splits)

lemma deletePoll_unique:
  "votes_unique db \<Longrightarrow> votes_unique (snd (deletePoll out db pid userId))"
  by (auto simp: deletePoll_def delete_votes_def delete_poll_def votes_unique_def
      distinct_map_filter split: option.splits)

lemma demo_unique: "votes_unique demo_store"
  by (simp add: votes_unique_def demo_store_def)

lemma busy_unique: "votes_unique busy_store"
  by (simp add: votes_unique_def busy_store_def)

lemma increment_at_Num:
  "0 \<le> i \<Longrightarrow> nat i < length cs \<Longrightarrow>
   increment_at (map Num cs) i = map Num (cs[nat i := cs ! nat i + 1])"
  by (simp add: increment_at_def map_update)

lemma fold_increment_at:
  "\<forall>v \<in> set vs. 0 \<le> option_index v \<and> nat (option_index v) < length cs \<Longrightarrow>
   fold (\<lambda>v acc. increment_at acc (option_index v)) vs (map Num cs)
     = map (\<lambda>k. Num (cs ! k + int (length (filter (\<lambda>v. option_index v = int k) vs))))
         [0..<length cs]"
proof (induction vs arbitrary: cs)
  case Nil
  show ?case by (intro nth_equalityI) simp_all
next
  case (Cons v vs)
  let ?i = "option_index v"
  let ?cs = "cs[nat ?i := cs ! nat ?i + 1]"
  have i: "0 \<le> ?i" "nat ?i < length cs" using Cons.prems by simp_all
  have rest: "\<forall>w \<in> set vs. 0 \<le> option_index w \<and> nat (option_index w) < length ?cs"
    using Cons.prems by simp
  have "fold (\<lambda>v acc. increment_at acc (option_index v)) (v # vs) (map Num cs)
          = fold (\<lambda>v acc. increment_at acc (option_index v)) vs (map Num ?cs)"
    using i by (simp add: increment_at_Num)
  also have "\<dots> = map (\<lambda>k. Num (?cs ! k + int (length (filter (\<lambda>v. option_index v = int k) vs))))
                     [0..<length ?cs]"
    by (rule Cons.IH [OF rest])
  also have "\<dots> = map (\<lambda>k. Num (cs ! k + int (length (filter (\<lambda>v. option_index v = int k) (v # vs)))))
                     [0..<length cs]"
    using i by (intro nth_equalityI) (auto simp: nth_list_update)
  finally show ?case .
qed

lemma sum_counts:
  "\<forall>v \<in> set vs. 0 \<le> option_index v \<and> option_index v < int n \<Longrightarrow>
   (\<Sum>k\<leftarrow>[0..<n]. int (length (filter (\<lambda>v. option_index v = int k) vs))) = int (length vs)"
proof (induction vs)
  case Nil
  show ?case by simp
next
  case (Cons v vs)
  let ?i = "option_index v"
  have i: "0 \<le> ?i" "nat ?i < n" using Cons.prems by auto
  have one: "(\<Sum>k\<leftarrow>[0..<n]. if ?i = int k then 1 else 0) = (1::int)"
  proof -
    have "(\<Sum>k\<leftarrow>[0..<n]. if ?i = int k then 1 else 0) = (\<Sum>k\<leftarrow>[0..<n]. if k = nat ?i then 1 else (0::int))"
      using i by (intro arg_cong[where f=sum_list] map_cong) auto
    also have "\<dots> = 1"
      using i by (simp add: interv_sum_list_conv_sum_set_nat)
    finally show ?thesis .
  qed
  have "(\<Sum>k\<leftarrow>[0..<n]. int (length (filter (\<lambda>v. option_index v = int k) (v # vs))))
          = (\<Sum>k\<leftarrow>[0..<n]. (if ?i = int k then 1 else 0)
                               + int (length (filter (\<lambda>v. option_index v = int k) vs)))"
    by (intro arg_cong[where f=sum_list] map_cong) auto
  also have "\<dots> = 1 + int (length vs)"
    using Cons.IH Cons.prems one by (simp add: sum_list_addf)
  finally show ?case by simp
qed

lemma select_votes_answered:
  "select_votes False db p = \<lparr>data = Some (filter (\<lambda>v. poll_id v = p) (votes db)), error = None\<rparr>"
  by (simp add: select_votes_def)

lemma getPollResults_answered:
  assumes "\<not> out 0" and "\<not> out 1" and "polls db p = Some q"
  shows "getPollResults out db p =
           \<lparr>results = fold (\<lambda>v acc. increment_at acc (option_index v))
                        (filter (\<lambda>v. poll_id v = p) (votes db))
                        (replicate (length (options q)) (Num 0)),
            results_error = None\<rparr>"
  using assms by (simp add: getPollResults_def select_votes_answered select_poll_data)

lemma getPollResults_counts:
  assumes "\<not> out 0" and "\<not> out 1" and "polls db p = Some q"
    and "\<forall>v \<in> set (votes db). poll_id v = p \<longrightarrow>
           0 \<le> option_index v \<and> option_index v < int (length (options q))"
  shows "results (getPollResults out db p) =
           map (\<lambda>k. Num (int (length
                  (filter (\<lambda>v. poll_id v = p \<and> option_index v = int k) (votes db)))))
             [0..<length (options q)]"
proof -
  let ?n = "length (options q)"
  let ?vs = "filter (\<lambda>v. poll_id v = p) (votes db)"
  have range: "\<forall>v \<in> set ?vs. 0 \<le> option_index v \<and> nat (option_index v) < length (replicate ?n (0::int))"
    using assms(4) by auto
  have "results (getPollResults out db p)
          = fold (\<lambda>v acc. increment_at acc (option_index v)) ?vs (map Num (replicate ?n 0))"
    using getPollResults_answered [OF assms(1,2,3)] by simp
  also have "\<dots> = map (\<lambda>k. Num (replicate ?n 0 ! k
                        + int (length (filter (\<lambda>v. option_index v = int k) ?vs))))
                     [0..<length (replicate ?n (0::int))]"
    by (rule fold_increment_at [OF range])
  also have "\<dots> = map (\<lambda>k. Num (int (length
                        (filter (\<lambda>v. poll_id v = p \<and> option_index v = int k) (votes db)))))
                     [0..<?n]"
    by (auto simp: conj_commute)
  finally show ?thesis .
qed

text \<open>
  The error of \<open>getPollResults\<close> in every case: an unanswered votes query gives the
  store's error, an unanswered poll query counts as a poll that is not there.
\<close>

lemma getPollResults_error_cases:
  "results_error (getPollResults out db p) =
     (if out 0 then Some (StoreError Unavailable)
      else if out 1 \<or> polls db p = None then Some PollNotFound
      else None)"
  by (auto simp: getPollResults_def select_votes_def unanswered_def select_poll_data Let_def
      split: option.splits)

lemma getPollResults_failure:
  "results_error (getPollResults out db p) \<noteq> None \<Longrightarrow> results (getPollResults out db p) = []"
  by (auto simp: getPollResults_def Let_def split: option.splits)

lemma parse_string_ok:
  "is_string_min k x \<Longrightarrow> \<exists>s. x = Some (JStr s) \<and> parse_string k path x = Inr (JStr s)"
  by (auto simp: is_string_min_def parse_string_def split: option.splits json.splits)

lemma parse_string_bad:
  "\<not> is_string_min k x \<Longrightarrow> \<exists>is. parse_string k path x = Inl is \<and> is \<noteq> []"
  by (auto simp: is_string_min_def parse_string_def split: option.splits json.splits)

lemma parse_option_ok:
  "has_text y \<Longrightarrow> parse_option path y = Inr (text_member y)"
proof (cases y)
  case (JObj kvs)
  assume "has_text y"
  then have "is_string_min 1 (map_of kvs ''text'')" by (simp add: has_text_def JObj)
  from parse_string_ok [OF this, of "path @ [Key ''text'']"]
  show ?thesis by (auto simp: parse_option_def text_member_def member_def JObj)
qed (simp_all add: has_text_def)

lemma parse_option_bad:
  "\<not> has_text y \<Longrightarrow> \<exists>is. parse_option path y = Inl is \<and> is \<noteq> []"
proof (cases y)
  case (JObj kvs)
  assume "\<not> has_text y"
  then have "\<not> is_string_min 1 (map_of kvs ''text'')" by (simp add: has_text_def JObj)
  from parse_string_bad [OF this, of "path @ [Key ''text'']"]
  show ?thesis by (auto simp: parse_option_def JObj)
qed (simp_all add: parse_option_def)

lemma parse_all_ok:
  "list_all has_text xs \<Longrightarrow>
   map (\<lambda>(i, y). parse_option (path @ [Index i]) y) (enumerate n xs)
     = map (\<lambda>y. Inr (text_member y)) xs"
  by (induction xs arbitrary: n) (simp_all add: parse_option_ok)

lemma parse_some_bad:
  "\<not> list_all has_text xs \<Longrightarrow>
   concat (map issues_of (map (\<lambda>(i, y). parse_option (path @ [Index i]) y) (enumerate n xs))) \<noteq> []"
proof (induction xs arbitrary: n)
  case Nil
  then show ?case by simp
next
  case (Cons x xs)
  show ?case
  proof (cases "has_text x")
    case True
    with Cons show ?thesis by simp
  next
    case False
    from parse_option_bad [OF this, of "path @ [Index n]"]
    show ?thesis by (auto simp: issues_of_def)
  qed
qed

lemma values_of_Inr: "values_of (map (\<lambda>y. Inr (f y)) xs) = map f xs"
  by (induction xs) (simp_all add: values_of_def)

lemma parse_options_ok:
  assumes "is_options x"
  shows "\<exists>os. x = Some (JArr os) \<and> parse_options path x = Inr (JArr (map text_member os))"
proof -
  from assms obtain os where x: "x = Some (JArr os)" and n: "2 \<le> length os"
    and t: "list_all has_text os"
    by (auto simp: is_options_def split: option.splits json.splits)
  have "parse_options path x = Inr (JArr (map text_member os))"
    using n by (simp add: parse_options_def x parse_all_ok [OF t] values_of_Inr issues_of_def Let_def)
  with x show ?thesis by simp
qed

lemma parse_options_bad:
  assumes "\<not> is_options x"
  shows "\<exists>is. parse_options path x = Inl is \<and> is \<noteq> []"
proof (cases "\<exists>os. x = Some (JArr os)")
  case True
  then obtain os where x: "x = Some (JArr os)" by blast
  show ?thesis
  proof (cases "2 \<le> length os")
    case True
    with assms x have "\<not> list_all has_text os" by (simp add: is_options_def)
    from parse_some_bad [OF this, of "path" 0] True
    show ?thesis by (simp add: parse_options_def x Let_def)
  next
    case False
    then show ?thesis by (simp add: parse_options_def x Let_def)
  qed
next
  case False
  then show ?thesis
    by (auto simp: parse_options_def split: option.splits json.splits)
qed

lemma pollSchema_parse_ok:
  assumes "meets_schema body"
  shows "pollSchema_parse body = Inr (schema_members body)"
proof -
  from assms obtain kvs where b: "body = JObj kvs"
    and q: "is_string_min 5 (map_of kvs ''question'')" and o: "is_options (map_of kvs ''options'')"
    by (auto simp: meets_schema_def split: json.splits)
  from parse_string_ok [OF q, of "[Key ''question'']"] obtain s
    where s: "map_of kvs ''question'' = Some (JStr s)"
      "parse_string 5 [Key ''question''] (map_of kvs ''question'') = Inr (JStr s)" by blast
  from parse_options_ok [OF o, of "[Key ''options'']"] obtain os
    where os: "map_of kvs ''options'' = Some (JArr os)"
      "parse_options [Key ''options''] (map_of kvs ''options'') = Inr (JArr (map text_member os))"
    by blast
  show ?thesis
    using s(2) os(2)
    by (simp add: pollSchema_parse_def b schema_members_def member_def s(1) os(1))
qed

lemma pollSchema_parse_bad:
  assumes "\<not> meets_schema body"
  shows "\<exists>is. pollSchema_parse body = Inl is \<and> is \<noteq> []"
proof (cases body)
  case (JObj kvs)
  let ?q = "parse_string 5 [Key ''question''] (map_of kvs ''question'')"
  let ?o = "parse_options [Key ''options''] (map_of kvs ''options'')"
  have p: "pollSchema_parse body =
      (case (?q, ?o) of (Inr qv, Inr ov) \<Rightarrow> Inr (JObj [(''question'', qv), (''options'', ov)])
        | _ \<Rightarrow> Inl (issues_of ?q @ issues_of ?o))"
    by (simp add: pollSchema_parse_def JObj Let_def)
  from assms JObj
  consider "\<not> is_string_min 5 (map_of kvs ''question'')" | "\<not> is_options (map_of kvs ''options'')"
    by (auto simp: meets_schema_def)
  then show ?thesis
  proof cases
    case 1
    from parse_string_bad [OF 1, of "[Key ''question'']"] obtain iss
      where "?q = Inl iss" "iss \<noteq> []" by blast
    then show ?thesis by (simp add: p issues_of_def)
  next
    case 2
    from parse_options_bad [OF 2, of "[Key ''options'']"] obtain iss
      where "?o = Inl iss" "iss \<noteq> []" by blast
    then show ?thesis by (cases ?q) (simp_all add: p issues_of_def)
  qed
qed (simp_all add: pollSchema_parse_def)


section \<open>Submitting a vote\<close>

text \<open>
  C1, as the code has it. Two submissions for the same pair \<open>(p, u)\<close>, with whole
  numbers as option indices, that both passed the checks on the same store, a store whose
  table of votes satisfies the uniqueness constraint, at least one of the two duplicate
  look-ups having been answered; their inserts are answered one after the other. Then the
  first insert adds the row and returns it, the second is refused by the uniqueness
  constraint and changes nothing, so exactly one row for the pair exists afterwards. The
  refused insert comes back to the caller with the error object of the store,
  \<open>StoreError UniqueViolation\<close>, which is not the \<open>AlreadyVoted\<close> error of the
  duplicate check.
\<close>

theorem submitVote_race:
  assumes "votes_unique db"
    and "\<not> outA 0 \<or> \<not> outB 0"
    and "\<not> outA 2" and "\<not> outB 2"
    and "submitVote_checks outA db nowA p u (Finite (of_int a)) = None"
    and "submitVote_checks outB db nowB p u (Finite (of_int b)) = None"
    and "submitVote_insert outA db p u (Finite (of_int a)) = (rA, db1)"
    and "submitVote_insert outB db1 p u (Finite (of_int b)) = (rB, db2)"
  shows "vote rA = Some \<lparr>poll_id = p, user_id = u, option_index = a\<rparr> \<and> vote_error rA = None \<and>
         vote rB = None \<and> vote_error rB = Some (StoreError UniqueViolation) \<and>
         vote_error rB \<noteq> Some AlreadyVoted \<and>
         db2 = db1 \<and>
         filter (\<lambda>v. poll_id v = p \<and> user_id v = u) (votes db2)
           = [\<lparr>poll_id = p, user_id = u, option_index = a\<rparr>] \<and>
         votes_unique db2"
proof -
  let ?row = "\<lparr>poll_id = p, user_id = u, option_index = a\<rparr>"
  have none: "\<not> (\<exists>v \<in> set (votes db). poll_id v = p \<and> user_id v = u)"
    using checks_pass(1) [OF assms(5)] checks_pass(1) [OF assms(6)] assms(1,2)
    by (auto simp: hasUserVoted_unique)
  have poll: "polls db p \<noteq> None"
    using checks_pass(2) [OF assms(5)] .
  note first = insert_vote_fresh [OF assms(3) none poll, of a]
  have rA: "rA = \<lparr>vote = Some ?row, vote_error = None\<rparr>"
    and db1: "db1 = db\<lparr>votes := votes db @ [?row]\<rparr>"
    using assms(7) first by (auto simp: submitVote_insert_def)
  have filt: "filter (\<lambda>v. poll_id v = p \<and> user_id v = u) (votes db) = []"
    using none by (auto simp: filter_empty_conv)
  have there: "\<exists>v \<in> set (votes db1). poll_id v = p \<and> user_id v = u"
    by (simp add: db1)
  note second = insert_vote_duplicate [OF assms(4) there, of b]
  have rB: "rB = \<lparr>vote = None, vote_error = Some (StoreError UniqueViolation)\<rparr>"
    and db2: "db2 = db1"
    using assms(8) second by (auto simp: submitVote_insert_def)
  have uniq: "votes_unique db1"
    using assms(1) none by (auto simp: votes_unique_def db1)
  show ?thesis
    using rA rB db2 uniq filt by (simp add: db1)
qed

theorem submitVote_race_witness:
  "votes_unique demo_store \<and> \<not> answered 0 \<and> \<not> answered 2 \<and>
   submitVote_checks answered demo_store 0 ''P'' ''A'' (Finite (of_int 0)) = None \<and>
   submitVote_checks answered demo_store 0 ''P'' ''A'' (Finite (of_int 1)) = None \<and>
   vote (fst (submitVote_insert answered demo_store ''P'' ''A'' (Finite (of_int 0))))
     = Some \<lparr>poll_id = ''P'', user_id = ''A'', option_index = 0\<rparr> \<and>
   vote_error (fst (submitVote_insert answered
       (snd (submitVote_insert answered demo_store ''P'' ''A'' (Finite (of_int 0))))
       ''P'' ''A'' (Finite (of_int 1))))
     = Some (StoreError UniqueViolation)"
proof -
  have u: "votes_unique demo_store" by (rule demo_unique)
  have a0: "\<not> answered 0" and a2: "\<not> answered 2" by (rule answered_at)+
  have c0: "submitVote_checks answered demo_store 0 ''P'' ''A'' (Finite (of_int 0)) = None"
    by (simp add: answered_def submitVote_checks_def hasUserVoted_def select_vote_single_def
        single_def select_poll_single_def demo_store_def demo_poll_def)
  have c1: "submitVote_checks answered demo_store 0 ''P'' ''A'' (Finite (of_int 1)) = None"
    by (simp add: answered_def submitVote_checks_def hasUserVoted_def select_vote_single_def
        single_def select_poll_single_def demo_store_def demo_poll_def)
  show ?thesis
    using submitVote_race [OF u disjI1 a2 a2 c0 c1 surjective_pairing surjective_pairing, OF a0]
      u a0 a2 c0 c1
    by blast
qed

text \<open>
  C1, as the claim states it, fails. After both submissions of voter \<open>A\<close> on poll
  \<open>P\<close> passed the checks and the first insert succeeded, the second insert returns the
  constraint violation of the store, where the duplicate check on that same store answers
  \<open>AlreadyVoted\<close>; the two are different errors. Nor does exactly one insert succeed
  whenever both submissions pass the checks: when \<open>A\<close> has voted before and the
  duplicate look-ups go unanswered, both pass and both inserts are refused; and two
  submissions with \<^verbatim>\<open>NaN\<close> for an index both pass and are both refused.
\<close>

theorem submitVote_race_counterexample:
  "submitVote_checks answered demo_store 0 ''P'' ''A'' (Finite 0) = None \<and>
   submitVote_checks answered demo_store 0 ''P'' ''A'' (Finite 1) = None \<and>
   vote_error (fst (submitVote_insert answered demo_store ''P'' ''A'' (Finite 0))) = None \<and>
   vote_error (fst (submitVote_insert answered
       (snd (submitVote_insert answered demo_store ''P'' ''A'' (Finite 0))) ''P'' ''A'' (Finite 1)))
     = Some (StoreError UniqueViolation) \<and>
   submitVote_checks answered
       (snd (submitVote_insert answered demo_store ''P'' ''A'' (Finite 0))) 0 ''P'' ''A'' (Finite 1)
     = Some AlreadyVoted \<and>
   StoreError UniqueViolation \<noteq> AlreadyVoted \<and>
   submitVote_checks first_down busy_store 0 ''P'' ''A'' (Finite 0) = None \<and>
   submitVote_checks first_down busy_store 0 ''P'' ''A'' (Finite 1) = None \<and>
   submitVote_insert first_down busy_store ''P'' ''A'' (Finite 0)
     = (\<lparr>vote = None, vote_error = Some (StoreError UniqueViolation)\<rparr>, busy_store) \<and>
   submitVote_insert first_down busy_store ''P'' ''A'' (Finite 1)
     = (\<lparr>vote = None, vote_error = Some (StoreError UniqueViolation)\<rparr>, busy_store) \<and>
   submitVote_checks answered demo_store 0 ''P'' ''A'' NotANumber = None \<and>
   submitVote_insert answered demo_store ''P'' ''A'' NotANumber
     = (\<lparr>vote = None, vote_error = Some (StoreError NotNullViolation)\<rparr>, demo_store)"
  by (simp add: answered_def first_down_def submitVote_checks_def hasUserVoted_def
      select_vote_single_def single_def unanswered_def select_poll_single_def
      submitVote_insert_def insert_vote_def integer_of_def
      demo_store_def busy_store_def demo_poll_def)







section \<open>Counting the votes\<close>

text \<open>
  C3. For a poll with \<open>n\<close> options whose votes all have an option index in
  \<open>[0, n)\<close>, and with both queries answered, \<open>getPollResults\<close> returns no error and
  an array of exactly \<open>n\<close> numbers: the one at position \<open>k\<close> is the number of votes
  of the poll with option index \<open>k\<close>, none is negative, their sum is the number of votes
  of the poll, and a poll without votes gets \<open>n\<close> zeros. Nothing needs \<open>n \<ge> 2\<close>.
\<close>

theorem getPollResults_tally:
  assumes "\<not> out 0" and "\<not> out 1" and "polls db p = Some q"
    and "\<forall>v \<in> set (votes db). poll_id v = p \<longrightarrow>
           0 \<le> option_index v \<and> option_index v < int (length (options q))"
  shows "results_error (getPollResults out db p) = None \<and>
         length (results (getPollResults out db p)) = length (options q) \<and>
         (\<forall>k < length (options q). results (getPollResults out db p) ! k =
            Num (int (length (filter (\<lambda>v. poll_id v = p \<and> option_index v = int k) (votes db))))) \<and>
         (\<forall>c \<in> set (results (getPollResults out db p)). \<exists>m \<ge> 0. c = Num m) \<and>
         (\<Sum>c\<leftarrow>results (getPollResults out db p). count_of c)
            = int (length (filter (\<lambda>v. poll_id v = p) (votes db))) \<and>
         (filter (\<lambda>v. poll_id v = p) (votes db) = [] \<longrightarrow>
            results (getPollResults out db p) = replicate (length (options q)) (Num 0))"
proof -
  let ?n = "length (options q)"
  let ?vs = "filter (\<lambda>v. poll_id v = p) (votes db)"
  let ?r = "results (getPollResults out db p)"
  note counts = getPollResults_counts [OF assms]
  have err: "results_error (getPollResults out db p) = None"
    using getPollResults_answered [OF assms(1,2,3)] by simp
  have len: "length ?r = ?n" by (simp add: counts)
  have nth: "\<forall>k < ?n. ?r ! k =
      Num (int (length (filter (\<lambda>v. poll_id v = p \<and> option_index v = int k) (votes db))))"
    by (simp add: counts)
  have nonneg: "\<forall>c \<in> set ?r. \<exists>m \<ge> 0. c = Num m"
    unfolding counts by auto
  have range: "\<forall>v \<in> set ?vs. 0 \<le> option_index v \<and> option_index v < int ?n"
    using assms(4) by auto
  have "(\<Sum>c\<leftarrow>?r. count_of c)
          = (\<Sum>k\<leftarrow>[0..<?n]. int (length (filter (\<lambda>v. option_index v = int k) ?vs)))"
    unfolding counts by (simp add: comp_def conj_commute)
  also have "\<dots> = int (length ?vs)"
    by (rule sum_counts [OF range])
  finally have total: "(\<Sum>c\<leftarrow>?r. count_of c) = int (length ?vs)" .
  have zero: "?vs = [] \<longrightarrow> ?r = replicate ?n (Num 0)"
    using getPollResults_answered [OF assms(1,2,3)] by simp
  show ?thesis
    using err len nth nonneg total zero by blast
qed

theorem getPollResults_tally_witness:
  "\<not> answered 0 \<and> \<not> answered 1 \<and> polls busy_store ''P'' = Some demo_poll \<and>
   list_all (\<lambda>v. poll_id v \<noteq> ''P'' \<or>
                  0 \<le> option_index v \<and> option_index v < int (length (options demo_poll)))
     (votes busy_store) \<and>
   results_error (getPollResults answered busy_store ''P'') = None \<and>
   length (results (getPollResults answered busy_store ''P'')) = 2 \<and>
   results (getPollResults answered busy_store ''P'') ! 0 = Num 1 \<and>
   results (getPollResults answered busy_store ''P'') ! 1 = Num 2 \<and>
   (\<Sum>c\<leftarrow>results (getPollResults answered busy_store ''P''). count_of c) = 3"
proof -
  have a0: "\<not> answered 0" and a1: "\<not> answered 1" by (rule answered_at)+
  have q: "polls busy_store ''P'' = Some demo_poll" by (simp add: busy_store_def)
  have r: "\<forall>v \<in> set (votes busy_store). poll_id v = ''P'' \<longrightarrow>
       0 \<le> option_index v \<and> option_index v < int (length (options demo_poll))"
    by (simp add: busy_store_def demo_poll_def)
  note t = getPollResults_tally [OF a0 a1 q r]
  have n: "length (options demo_poll) = 2" by (simp add: demo_poll_def)
  have c0: "length (filter (\<lambda>v. poll_id v = ''P'' \<and> option_index v = int 0) (votes busy_store)) = 1"
    by (simp add: busy_store_def)
  have c1: "length (filter (\<lambda>v. poll_id v = ''P'' \<and> option_index v = int 1) (votes busy_store)) = 2"
    by (simp add: busy_store_def)
  have all: "length (filter (\<lambda>v. poll_id v = ''P'') (votes busy_store)) = 3"
    by (simp add: busy_store_def)
  have e: "results_error (getPollResults answered busy_store ''P'') = None"
    using t by blast
  have l: "length (results (getPollResults answered busy_store ''P'')) = 2"
    using t n by simp
  have n0: "results (getPollResults answered busy_store ''P'') ! 0 = Num 1"
    using t n c0 by simp
  have n1: "results (getPollResults answered busy_store ''P'') ! 1 = Num 2"
    using t n c1 by simp
  have s: "(\<Sum>c\<leftarrow>results (getPollResults answered busy_store ''P''). count_of c) = 3"
    using t all by simp
  have r': "list_all (\<lambda>v. poll_id v \<noteq> ''P'' \<or>
                  0 \<le> option_index v \<and> option_index v < int (length (options demo_poll)))
     (votes busy_store)"
    by (simp add: busy_store_def demo_poll_def)
  show ?thesis
    using a0 a1 q r' e l n0 n1 s by blast
qed

text \<open>
  C4, as the code has it. The error of \<open>getPollResults\<close> in every case: the error of
  the store when the votes query is not answered; else \<open>PollNotFound\<close> when the poll
  look-up is not answered or finds no poll; else none. Every error comes with the empty
  array. So with both queries answered the error is \<open>PollNotFound\<close> exactly when the
  poll does not exist, and for a poll that exists there is no error; the array is then the
  tally of its \<open>n\<close> options, all zeros for no votes, provided every vote of the poll has
  an option index in \<open>[0, n)\<close>.
\<close>

theorem getPollResults_errors:
  "results_error (getPollResults out db p) =
     (if out 0 then Some (StoreError Unavailable)
      else if out 1 \<or> polls db p = None then Some PollNotFound
      else None) \<and>
   (results_error (getPollResults out db p) \<noteq> None \<longrightarrow> results (getPollResults out db p) = []) \<and>
   (\<not> out 0 \<and> \<not> out 1 \<longrightarrow>
      (results_error (getPollResults out db p) = Some PollNotFound \<longleftrightarrow> polls db p = None)) \<and>
   (\<not> out 0 \<and> \<not> out 1 \<and> polls db p = Some q \<and>
    (\<forall>v \<in> set (votes db). poll_id v = p \<longrightarrow>
        0 \<le> option_index v \<and> option_index v < int (length (options q))) \<longrightarrow>
      results_error (getPollResults out db p) = None \<and>
      results (getPollResults out db p) =
        map (\<lambda>k. Num (int (length
               (filter (\<lambda>v. poll_id v = p \<and> option_index v = int k) (votes db)))))
          [0..<length (options q)] \<and>
      (filter (\<lambda>v. poll_id v = p) (votes db) = [] \<longrightarrow>
         results (getPollResults out db p) = replicate (length (options q)) (Num 0)))"
proof -
  let ?r = "getPollResults out db p"
  note cases = getPollResults_error_cases [of out db p]
  have empty: "results_error ?r \<noteq> None \<longrightarrow> results ?r = []"
    using getPollResults_failure [of out db p] by blast
  have iff: "\<not> out 0 \<and> \<not> out 1 \<longrightarrow> (results_error ?r = Some PollNotFound \<longleftrightarrow> polls db p = None)"
    by (simp add: cases)
  have tally: "\<not> out 0 \<and> \<not> out 1 \<and> polls db p = Some q \<and>
    (\<forall>v \<in> set (votes db). poll_id v = p \<longrightarrow>
        0 \<le> option_index v \<and> option_index v < int (length (options q))) \<longrightarrow>
      results_error ?r = None \<and>
      results ?r =
        map (\<lambda>k. Num (int (length
               (filter (\<lambda>v. poll_id v = p \<and> option_index v = int k) (votes db)))))
          [0..<length (options q)] \<and>
      (filter (\<lambda>v. poll_id v = p) (votes db) = [] \<longrightarrow>
         results ?r = replicate (length (options q)) (Num 0))"
  proof (intro impI, elim conjE)
    assume a: "\<not> out 0" "\<not> out 1" "polls db p = Some q"
      "\<forall>v \<in> set (votes db). poll_id v = p \<longrightarrow>
          0 \<le> option_index v \<and> option_index v < int (length (options q))"
    have e: "results_error ?r = None" using a(1,2,3) by (simp add: cases)
    note c = getPollResults_counts [OF a]
    have z: "filter (\<lambda>v. poll_id v = p) (votes db) = [] \<longrightarrow>
               results ?r = replicate (length (options q)) (Num 0)"
      using getPollResults_answered [OF a(1,2,3)] by simp
    show "results_error ?r = None \<and>
      results ?r =
        map (\<lambda>k. Num (int (length
               (filter (\<lambda>v. poll_id v = p \<and> option_index v = int k) (votes db)))))
          [0..<length (options q)] \<and>
      (filter (\<lambda>v. poll_id v = p) (votes db) = [] \<longrightarrow>
         results ?r = replicate (length (options q)) (Num 0))"
      using e c z by blast
  qed
  show ?thesis
    using cases empty iff tally by blast
qed

theorem getPollResults_errors_witness:
  "polls busy_store ''R'' = None \<and>
   results_error (getPollResults answered busy_store ''R'') = Some PollNotFound \<and>
   results (getPollResults answered busy_store ''R'') = [] \<and>
   polls busy_store ''P'' = Some demo_poll \<and>
   list_all (\<lambda>v. poll_id v \<noteq> ''P'' \<or>
                  0 \<le> option_index v \<and> option_index v < int (length (options demo_poll)))
     (votes busy_store) \<and>
   results_error (getPollResults answered busy_store ''P'') = None \<and>
   results (getPollResults answered busy_store ''P'') = [Num 1, Num 2] \<and>
   results_error (getPollResults first_down busy_store ''P'') = Some (StoreError Unavailable) \<and>
   results_error (getPollResults second_down busy_store ''P'') = Some PollNotFound \<and>
   results (getPollResults answered demo_store ''P'') = [Num 0, Num 0]"
proof -
  have a0: "\<not> answered 0" and a1: "\<not> answered 1" by (rule answered_at)+
  have f0: "first_down 0" by (simp add: first_down_def)
  have s0: "\<not> second_down 0" and s1: "second_down 1" by (simp_all add: second_down_def)
  have r: "polls busy_store ''R'' = None" and q: "polls busy_store ''P'' = Some demo_poll"
    by (simp_all add: busy_store_def)
  have d: "polls demo_store ''P'' = Some demo_poll" by (simp add: demo_store_def)
  have rng: "\<forall>v \<in> set (votes busy_store). poll_id v = ''P'' \<longrightarrow>
       0 \<le> option_index v \<and> option_index v < int (length (options demo_poll))"
    by (simp add: busy_store_def demo_poll_def)
  have rng': "list_all (\<lambda>v. poll_id v \<noteq> ''P'' \<or>
                  0 \<le> option_index v \<and> option_index v < int (length (options demo_poll)))
     (votes busy_store)"
    by (simp add: busy_store_def demo_poll_def)
  have none: "\<forall>v \<in> set (votes demo_store). poll_id v = ''P'' \<longrightarrow>
       0 \<le> option_index v \<and> option_index v < int (length (options demo_poll))"
    and nil: "filter (\<lambda>v. poll_id v = ''P'') (votes demo_store) = []"
    by (simp_all add: demo_store_def)
  have counts: "map (\<lambda>k. Num (int (length
               (filter (\<lambda>v. poll_id v = ''P'' \<and> option_index v = int k) (votes busy_store)))))
          [0..<length (options demo_poll)] = [Num 1, Num 2]"
    by (simp add: busy_store_def demo_poll_def upt_rec)
  have zeros: "replicate (length (options demo_poll)) (Num 0) = [Num 0, Num 0]"
    by (simp add: demo_poll_def numeral_2_eq_2)
  note missing = getPollResults_errors [of answered busy_store "''R''" demo_poll]
  note tally = getPollResults_errors [of answered busy_store "''P''" demo_poll]
  note down0 = getPollResults_errors [of first_down busy_store "''P''" demo_poll]
  note down1 = getPollResults_errors [of second_down busy_store "''P''" demo_poll]
  note zero = getPollResults_errors [of answered demo_store "''P''" demo_poll]
  have e1: "results_error (getPollResults answered busy_store ''R'') = Some PollNotFound"
    using missing a0 a1 r by simp
  have e2: "results (getPollResults answered busy_store ''R'') = []"
    using missing e1 by simp
  have e3: "results_error (getPollResults answered busy_store ''P'') = None"
    using tally a0 a1 q by simp
  have e4: "results (getPollResults answered busy_store ''P'') = [Num 1, Num 2]"
    using tally a0 a1 q rng counts by simp
  have e5: "results_error (getPollResults first_down busy_store ''P'') = Some (StoreError Unavailable)"
    using down0 f0 by simp
  have e6: "results_error (getPollResults second_down busy_store ''P'') = Some PollNotFound"
    using down1 s0 s1 by simp
  have "filter (\<lambda>v. poll_id v = ''P'') (votes demo_store) = [] \<longrightarrow>
          results (getPollResults answered demo_store ''P'')
            = replicate (length (options demo_poll)) (Num 0)"
    using zero a0 a1 d none by blast
  then have e7: "results (getPollResults answered demo_store ''P'') = [Num 0, Num 0]"
    using nil zeros by simp
  show ?thesis
    using r q rng' e1 e2 e3 e4 e5 e6 e7 by blast
qed

text \<open>
  C4, as the claim states it, fails. Poll \<open>P\<close> exists, but when its look-up is not
  answered the error is \<open>PollNotFound\<close>, and when the votes query is not answered the
  error is the one of the store. And with both queries answered, a vote on \<open>P\<close> with
  option index 5 makes the outcome, without any error, an array that is no tally of the
  two options.
\<close>

theorem getPollResults_errors_counterexample:
  "polls busy_store ''P'' = Some demo_poll \<and>
   getPollResults second_down busy_store ''P''
     = \<lparr>results = [], results_error = Some PollNotFound\<rparr> \<and>
   getPollResults first_down busy_store ''P''
     = \<lparr>results = [], results_error = Some (StoreError Unavailable)\<rparr> \<and>
   polls stray_store ''P'' = Some demo_poll \<and> length (options demo_poll) = 2 \<and>
   getPollResults answered stray_store ''P''
     = \<lparr>results = [Num 0, Num 0, Hole, Hole, Hole, NaN], results_error = None\<rparr>"
  by (simp add: answered_def first_down_def second_down_def getPollResults_def select_votes_def
      unanswered_def select_poll_single_def increment_at_def busy_store_def stray_store_def
      demo_poll_def numeral_2_eq_2 numeral_3_eq_3)


section \<open>Asking whether a user has voted\<close>

text \<open>
  C6. \<open>hasUserVoted\<close> is a total function to the booleans. It is false when its look-up
  is not answered, and false when the table has no row for the pair, whatever polls and
  users exist. Under the uniqueness constraint and with the look-up answered it is true
  exactly when a row for the pair exists. After a \<open>submitVote\<close> of the pair that returned
  no error it is true on the resulting store. It depends on the rows of the pair alone:
  two stores with the same rows for the pair give the same answer.
\<close>

theorem hasUserVoted_total:
  "(out 0 \<longrightarrow> \<not> hasUserVoted out db p u) \<and>
   (\<not> (\<exists>v \<in> set (votes db). poll_id v = p \<and> user_id v = u) \<longrightarrow> \<not> hasUserVoted out db p u) \<and>
   (votes_unique db \<and> \<not> out 0 \<longrightarrow>
      hasUserVoted out db p u = (\<exists>v \<in> set (votes db). poll_id v = p \<and> user_id v = u)) \<and>
   (\<not> out 0 \<and> submitVote out' db now p u i = (r, db') \<and> vote_error r = None \<longrightarrow>
      hasUserVoted out db' p u) \<and>
   (filter (\<lambda>v. poll_id v = p \<and> user_id v = u) (votes db)
      = filter (\<lambda>v. poll_id v = p \<and> user_id v = u) (votes db2) \<longrightarrow>
      hasUserVoted out db p u = hasUserVoted out db2 p u)"
proof -
  let ?m = "\<lambda>v. poll_id v = p \<and> user_id v = u"
  have down: "out 0 \<longrightarrow> \<not> hasUserVoted out db p u"
    by (simp add: hasUserVoted_rows)
  have absent: "\<not> (\<exists>v \<in> set (votes db). ?m v) \<longrightarrow> \<not> hasUserVoted out db p u"
  proof
    assume "\<not> (\<exists>v \<in> set (votes db). ?m v)"
    then have "filter ?m (votes db) = []" by (auto simp: filter_empty_conv)
    then show "\<not> hasUserVoted out db p u" by (simp add: hasUserVoted_rows)
  qed
  have exact: "votes_unique db \<and> \<not> out 0 \<longrightarrow> hasUserVoted out db p u = (\<exists>v \<in> set (votes db). ?m v)"
    by (simp add: hasUserVoted_unique)
  have after: "\<not> out 0 \<and> submitVote out' db now p u i = (r, db') \<and> vote_error r = None \<longrightarrow>
      hasUserVoted out db' p u"
  proof
    assume a: "\<not> out 0 \<and> submitVote out' db now p u i = (r, db') \<and> vote_error r = None"
    have ins: "submitVote_insert out' db p u i = (r, db')"
      using a by (auto simp: submitVote_def split: option.splits)
    have "\<exists>k. filter ?m (votes db) = [] \<and>
            db' = db\<lparr>votes := votes db @ [\<lparr>poll_id = p, user_id = u, option_index = k\<rparr>]\<rparr>"
      using ins a
      by (auto simp: submitVote_insert_def insert_vote_def unanswered_def filter_empty_conv
          split: if_splits sum.splits)
    then obtain k where "filter ?m (votes db') = [\<lparr>poll_id = p, user_id = u, option_index = k\<rparr>]"
      by auto
    then show "hasUserVoted out db' p u" using a by (simp add: hasUserVoted_rows)
  qed
  have indep: "filter ?m (votes db) = filter ?m (votes db2) \<longrightarrow>
      hasUserVoted out db p u = hasUserVoted out db2 p u"
    by (simp add: hasUserVoted_rows)
  show ?thesis
    using down absent exact after indep by blast
qed

theorem hasUserVoted_total_witness:
  "offline 0 \<and> \<not> hasUserVoted offline busy_store ''P'' ''A'' \<and>
   \<not> (\<exists>v \<in> set (votes busy_store). poll_id v = ''P'' \<and> user_id v = ''Z'') \<and>
   \<not> hasUserVoted answered busy_store ''P'' ''Z'' \<and>
   votes_unique busy_store \<and> \<not> answered 0 \<and>
   (\<exists>v \<in> set (votes busy_store). poll_id v = ''P'' \<and> user_id v = ''A'') \<and>
   hasUserVoted answered busy_store ''P'' ''A'' \<and>
   vote_error (fst (submitVote answered busy_store 0 ''P'' ''Z'' (Finite 1))) = None \<and>
   hasUserVoted answered (snd (submitVote answered busy_store 0 ''P'' ''Z'' (Finite 1))) ''P'' ''Z'' \<and>
   hasUserVoted answered (snd (submitVote answered busy_store 0 ''P'' ''Z'' (Finite 1))) ''P'' ''A''
     = hasUserVoted answered busy_store ''P'' ''A''"
proof -
  have o: "offline 0" by (simp add: offline_def)
  have a0: "\<not> answered 0" by (rule answered_at)
  have z: "\<not> (\<exists>v \<in> set (votes busy_store). poll_id v = ''P'' \<and> user_id v = ''Z'')"
    by (simp add: busy_store_def)
  have a: "\<exists>v \<in> set (votes busy_store). poll_id v = ''P'' \<and> user_id v = ''A''"
    by (simp add: busy_store_def)
  have ok: "vote_error (fst (submitVote answered busy_store 0 ''P'' ''Z'' (Finite 1))) = None"
    by (simp add: answered_def submitVote_def submitVote_checks_def hasUserVoted_def select_vote_single_def
        single_def select_poll_single_def submitVote_insert_def insert_vote_def integer_of_def
        busy_store_def demo_poll_def)
  have same: "filter (\<lambda>v. poll_id v = ''P'' \<and> user_id v = ''A'') (votes busy_store)
      = filter (\<lambda>v. poll_id v = ''P'' \<and> user_id v = ''A'')
          (votes (snd (submitVote answered busy_store 0 ''P'' ''Z'' (Finite 1))))"
    by (simp add: answered_def submitVote_def submitVote_checks_def hasUserVoted_def select_vote_single_def
        single_def select_poll_single_def submitVote_insert_def insert_vote_def integer_of_def
        busy_store_def demo_poll_def)
  have sp: "submitVote answered busy_store 0 ''P'' ''Z'' (Finite 1)
      = (fst (submitVote answered busy_store 0 ''P'' ''Z'' (Finite 1)),
         snd (submitVote answered busy_store 0 ''P'' ''Z'' (Finite 1)))"
    by simp
  show ?thesis
    using hasUserVoted_total [of offline busy_store "''P''" "''A''"]
      hasUserVoted_total [of answered busy_store "''P''" "''Z''" answered 0 "Finite 1"
        "fst (submitVote answered busy_store 0 ''P'' ''Z'' (Finite 1))"
        "snd (submitVote answered busy_store 0 ''P'' ''Z'' (Finite 1))"]
      hasUserVoted_total [of answered busy_store "''P''" "''A''" answered 0 "Finite 1" undefined undefined
        "snd (submitVote answered busy_store 0 ''P'' ''Z'' (Finite 1))"]
      o a0 z a ok same sp busy_unique
    by blast
qed


section \<open>Subscriptions\<close>

text \<open>
  C7, as the code has it. When the recomputation of the tally fails, the registered function
  drops the error: it calls \<open>onUpdate\<close> once, with the empty array, and the subscription
  is left as it was, neither closed nor run again.
\<close>

theorem on_change_failure:
  assumes "results_error (getPollResults out db (poll_filter sub)) \<noteq> None"
  shows "on_change out db onUpdate (sub, c) = (sub, onUpdate [] c)"
  using getPollResults_failure [OF assms] by (simp add: on_change_def)

theorem on_change_failure_witness:
  "results_error (getPollResults answered demo_store (poll_filter (fst (subscribeToResults ''gone'')))) \<noteq> None \<and>
   on_change answered demo_store log_update (fst (subscribeToResults ''gone''), [])
     = (fst (subscribeToResults ''gone''), log_update [] [])"
proof -
  have f: "results_error (getPollResults answered demo_store
             (poll_filter (fst (subscribeToResults ''gone'')))) \<noteq> None"
    by (simp add: answered_def getPollResults_def select_votes_def select_poll_single_def
        subscribeToResults_def demo_store_def)
  show ?thesis
    using on_change_failure [OF f, of log_update "[]"] f by blast
qed

text \<open>
  C7, as the claim states it, fails: for a poll that is gone the recomputation fails with
  \<open>PollNotFound\<close>, yet the caller's log receives one more tally, the empty one, and the
  subscription is still joined.
\<close>

theorem on_change_counterexample:
  "results_error (getPollResults answered demo_store ''gone'') = Some PollNotFound \<and>
   on_change answered demo_store log_update (fst (subscribeToResults ''gone''), [])
     = (fst (subscribeToResults ''gone''), [[]]) \<and>
   joined (fst (on_change answered demo_store log_update (fst (subscribeToResults ''gone''), [])))"
  by (simp add: answered_def getPollResults_def select_votes_def select_poll_single_def on_change_def
      subscribeToResults_def log_update_def demo_store_def)


section \<open>Deleting a poll\<close>

text \<open>
  C8. When \<open>deletePoll\<close> reports success, the poll existed and was created by the
  requesting user, and in the resulting store the poll is gone and no vote refers to it;
  all other polls and votes are as before.
\<close>

theorem deletePoll_success:
  assumes "deletePoll out db pid userId = (r, db')" and "success r"
  shows "(\<exists>q. polls db pid = Some q \<and> created_by q = userId) \<and>
         polls db' pid = None \<and> (\<forall>v \<in> set (votes db'). poll_id v \<noteq> pid) \<and>
         polls db' = (polls db)(pid := None) \<and>
         votes db' = filter (\<lambda>v. poll_id v \<noteq> pid) (votes db)"
  using assms
  by (auto simp: deletePoll_def select_poll_data delete_votes_def delete_poll_def
      split: option.splits if_splits)

theorem deletePoll_success_witness:
  "success (fst (deletePoll answered busy_store ''P'' ''owner'')) \<and>
   polls (snd (deletePoll answered busy_store ''P'' ''owner'')) ''P'' = None \<and>
   ''P'' \<notin> poll_id ` set (votes (snd (deletePoll answered busy_store ''P'' ''owner''))) \<and>
   votes (snd (deletePoll answered busy_store ''P'' ''owner''))
     = [\<lparr>poll_id = ''Q'', user_id = ''A'', option_index = 2\<rparr>]"
proof -
  have s: "success (fst (deletePoll answered busy_store ''P'' ''owner''))"
    by (simp add: answered_def deletePoll_def select_poll_single_def delete_votes_def delete_poll_def
        busy_store_def demo_poll_def)
  have v: "filter (\<lambda>v. poll_id v \<noteq> ''P'') (votes busy_store)
             = [\<lparr>poll_id = ''Q'', user_id = ''A'', option_index = 2\<rparr>]"
    by (simp add: busy_store_def)
  show ?thesis
    using deletePoll_success [OF surjective_pairing s] s v by auto
qed

text \<open>
  C9. When the poll does not exist or was created by another user, \<open>deletePoll\<close> returns
  \<open>success: false\<close> with the authorisation error and the store, both tables, is
  unchanged, whatever the store would have answered to later calls.
\<close>

theorem deletePoll_unauthorized:
  assumes "polls db pid = None \<or> (\<exists>q. polls db pid = Some q \<and> created_by q \<noteq> userId)"
  shows "deletePoll out db pid userId
           = (\<lparr>success = False, delete_error = Some NotAuthorized\<rparr>, db)"
  using assms
  by (auto simp: deletePoll_def select_poll_data split: option.splits)

theorem deletePoll_unauthorized_witness:
  "polls busy_store ''R'' = None \<and>
   deletePoll answered busy_store ''R'' ''owner''
     = (\<lparr>success = False, delete_error = Some NotAuthorized\<rparr>, busy_store) \<and>
   (\<exists>q. polls busy_store ''P'' = Some q \<and> created_by q \<noteq> ''carol'') \<and>
   deletePoll answered busy_store ''P'' ''carol''
     = (\<lparr>success = False, delete_error = Some NotAuthorized\<rparr>, busy_store)"
proof -
  have h1: "polls busy_store ''R'' = None" by (simp add: busy_store_def)
  have h2: "\<exists>q. polls busy_store ''P'' = Some q \<and> created_by q \<noteq> ''carol''"
    by (simp add: busy_store_def demo_poll_def)
  show ?thesis
    using deletePoll_unauthorized [OF disjI1, OF h1, of answered "''owner''"]
      deletePoll_unauthorized [OF disjI2, OF h2, of answered] h1 h2
    by blast
qed


section \<open>Creating a poll over HTTP\<close>

text \<open>
  C10, as the code has it. The handler never touches the store. A request whose body is
  not JSON gets status 500. A JSON body that meets the schema gets status 201 with the
  parsed data, which are the members the schema names; a JSON body that does not meet it
  gets status 400 with a non-empty list of validation issues and no data.
\<close>

theorem POST_reply:
  "snd (POST db request_json) = db \<and>
   fst (POST db None) = \<lparr>status = 500, message = ''Internal server error'',
                          reply_data = None, errors = None\<rparr> \<and>
   (meets_schema body \<longrightarrow>
      fst (POST db (Some body)) = \<lparr>status = 201, message = ''Poll created successfully'',
                                    reply_data = Some (schema_members body), errors = None\<rparr>) \<and>
   (\<not> meets_schema body \<longrightarrow>
      status (fst (POST db (Some body))) = 400 \<and>
      message (fst (POST db (Some body))) = ''Invalid request data'' \<and>
      reply_data (fst (POST db (Some body))) = None \<and>
      (\<exists>is. errors (fst (POST db (Some body))) = Some is \<and> is \<noteq> []))"
proof -
  have unchanged: "snd (POST db request_json) = db"
    by (simp add: POST_def split: option.splits sum.splits)
  have no_json: "fst (POST db None) = \<lparr>status = 500, message = ''Internal server error'',
                          reply_data = None, errors = None\<rparr>"
    by (simp add: POST_def)
  have ok: "meets_schema body \<longrightarrow>
      fst (POST db (Some body)) = \<lparr>status = 201, message = ''Poll created successfully'',
                                    reply_data = Some (schema_members body), errors = None\<rparr>"
    by (simp add: POST_def pollSchema_parse_ok)
  have bad: "\<not> meets_schema body \<longrightarrow>
      status (fst (POST db (Some body))) = 400 \<and>
      message (fst (POST db (Some body))) = ''Invalid request data'' \<and>
      reply_data (fst (POST db (Some body))) = None \<and>
      (\<exists>is. errors (fst (POST db (Some body))) = Some is \<and> is \<noteq> [])"
  proof
    assume "\<not> meets_schema body"
    from pollSchema_parse_bad [OF this] obtain iss
      where "pollSchema_parse body = Inl iss" "iss \<noteq> []" by blast
    then show "status (fst (POST db (Some body))) = 400 \<and>
      message (fst (POST db (Some body))) = ''Invalid request data'' \<and>
      reply_data (fst (POST db (Some body))) = None \<and>
      (\<exists>is. errors (fst (POST db (Some body))) = Some is \<and> is \<noteq> [])"
      by (simp add: POST_def)
  qed
  show ?thesis
    using unchanged no_json ok bad by blast
qed

theorem POST_reply_witness:
  "meets_schema good_body \<and>
   fst (POST demo_store (Some good_body))
     = \<lparr>status = 201, message = ''Poll created successfully'',
        reply_data = Some (JObj [(''question'', JStr ''Tea or coffee?''),
                                 (''options'', JArr [JObj [(''text'', JStr ''Tea'')],
                                                     JObj [(''text'', JStr ''Coffee'')]])]),
        errors = None\<rparr> \<and>
   \<not> meets_schema bad_body \<and>
   status (fst (POST demo_store (Some bad_body))) = 400 \<and>
   snd (POST demo_store (Some good_body)) = demo_store"
proof -
  have g: "meets_schema good_body"
    by (simp add: meets_schema_def is_string_min_def is_options_def has_text_def good_body_def)
  have b: "\<not> meets_schema bad_body"
    by (simp add: meets_schema_def is_string_min_def is_options_def has_text_def bad_body_def)
  have m: "schema_members good_body
             = JObj [(''question'', JStr ''Tea or coffee?''),
                     (''options'', JArr [JObj [(''text'', JStr ''Tea'')],
                                         JObj [(''text'', JStr ''Coffee'')]])]"
    by (simp add: schema_members_def member_def text_member_def good_body_def)
  show ?thesis
    using POST_reply [of demo_store "Some good_body" good_body]
      POST_reply [of demo_store "Some bad_body" bad_body] g b m
    by simp
qed

text \<open>
  C10, as the claim states it, fails: a request whose body is not JSON violates the schema
  and is answered with status 500, neither 201 nor 400.
\<close>

theorem POST_reply_counterexample:
  "status (fst (POST demo_store None)) = 500 \<and>
   status (fst (POST demo_store None)) \<noteq> 201 \<and>
   status (fst (POST demo_store None)) \<noteq> 400"
  by (simp add: POST_def)

end
